theory Spec2Isabelle
  imports Main "HOL-Library.Word"
begin

section \<open>Exceptions of the adapter and of the FTP client\<close>

text \<open>
  The adapter talks to an \<^verbatim>\<open>ftplib\<close> client object and tells failures apart by
  exception class: \<^verbatim>\<open>ftplib.Error\<close> (the protocol-level family), \<^verbatim>\<open>OSError\<close>
  (of which \<^verbatim>\<open>IOError\<close> is an alias, carrying an \<^verbatim>\<open>errno\<close>) and everything else.
  \<^verbatim>\<open>ValueError\<close> and \<^verbatim>\<open>FileNotFoundError\<close> are the wrappers raised by \<^verbatim>\<open>add\<close> and
  \<^verbatim>\<open>get\<close> with \<^verbatim>\<open>raise ... from e\<close>: they carry the cause, whose \<^verbatim>\<open>repr\<close> is their
  message. \<^verbatim>\<open>UserError\<close> carries its message; \<^verbatim>\<open>RuntimeError\<close> is what
  \<^verbatim>\<open>contextlib\<close> raises for a generator that does not yield.
\<close>

datatype exn =
    FtpError string
  | OSError "nat option"
  | EOFError
  | UserError string
  | ValueError exn
  | FileNotFoundError exn
  | RuntimeError string

text \<open>\<^verbatim>\<open>except ftplib.Error\<close>\<close>

fun is_ftplib_Error :: "exn \<Rightarrow> bool" where
  "is_ftplib_Error (FtpError m) = True"
| "is_ftplib_Error e = False"

text \<open>\<^verbatim>\<open>except IOError\<close> / \<^verbatim>\<open>except OSError\<close>: \<^verbatim>\<open>FileNotFoundError\<close> is a subclass.\<close>

fun is_OSError :: "exn \<Rightarrow> bool" where
  "is_OSError (OSError n) = True"
| "is_OSError (FileNotFoundError c) = True"
| "is_OSError e = False"

text \<open>\<^verbatim>\<open>e.errno\<close>; a \<^verbatim>\<open>FileNotFoundError\<close> built from one message has none.\<close>

fun errno :: "exn \<Rightarrow> nat option" where
  "errno (OSError n) = n"
| "errno e = None"

definition ENOENT :: nat where
  "ENOENT = 2"

section \<open>Paths and data\<close>

type_synonym bytes = "8 word list"

definition sep :: char where
  "sep = CHR ''/''"

text \<open>\<^verbatim>\<open>p[:p.rfind(sep) + 1]\<close>: the prefix of \<open>p\<close> up to and including its last separator.\<close>

definition head_upto_sep :: "string \<Rightarrow> string" where
  "head_upto_sep p = rev (dropWhile (\<lambda>c. c \<noteq> sep) (rev p))"

text \<open>\<^verbatim>\<open>head.rstrip(sep)\<close>\<close>

definition rstrip_sep :: "string \<Rightarrow> string" where
  "rstrip_sep h = rev (dropWhile (\<lambda>c. c = sep) (rev h))"

text \<open>
  \<^verbatim>\<open>os.path.dirname\<close> (posixpath):
  \<^verbatim>\<open>
  i = p.rfind(sep) + 1
  head = p[:i]
  if head and head != sep*len(head):
      head = head.rstrip(sep)
  return head
  \<close>
\<close>

definition dirname :: "string \<Rightarrow> string" where
  "dirname p =
     (let head = head_upto_sep p
      in if head \<noteq> [] \<and> head \<noteq> replicate (length head) sep then rstrip_sep head else head)"

text \<open>\<^verbatim>\<open>os.path.basename\<close>: \<^verbatim>\<open>p[p.rfind(sep) + 1:]\<close>\<close>

definition basename :: "string \<Rightarrow> string" where
  "basename p = rev (takeWhile (\<lambda>c. c \<noteq> sep) (rev p))"

text \<open>
  \<^verbatim>\<open>os.path.join(a, b)\<close> (posixpath), two arguments:
  \<^verbatim>\<open>
  if b.startswith(sep): path = b
  elif not path or path.endswith(sep): path += b
  else: path += sep + b
  \<close>
\<close>

definition join :: "string \<Rightarrow> string \<Rightarrow> string" where
  "join a b =
     (if b \<noteq> [] \<and> hd b = sep then b
      else if a = [] \<or> last a = sep then a @ b
      else a @ [sep] @ b)"

section \<open>The client object and the calls made on it\<close>

datatype client_class = FTP | ImplicitFTPTLS | FTP_TLS

datatype ssl_protocol = PROTOCOL_TLS | PROTOCOL_TLSv1 | PROTOCOL_TLSv1_1 | PROTOCOL_TLSv1_2

text \<open>In the \<^verbatim>\<open>ssl\<close> module \<^verbatim>\<open>PROTOCOL_SSLv23\<close> is an alias of \<^verbatim>\<open>PROTOCOL_TLS\<close>.\<close>

definition PROTOCOL_SSLv23 :: ssl_protocol where
  "PROTOCOL_SSLv23 = PROTOCOL_TLS"

text \<open>
  The method calls the adapter makes on the client object, with their arguments.
  \<open>Exit\<close> is the client's \<^verbatim>\<open>__exit__\<close>, run when the \<^verbatim>\<open>with _ftp as client\<close> block is
  left: \<^verbatim>\<open>ftplib\<close> sends \<^verbatim>\<open>QUIT\<close> and closes the socket there, and swallows the
  \<^verbatim>\<open>OSError\<close> or \<^verbatim>\<open>EOFError\<close> this may meet.
\<close>

datatype call =
    Connect string int
  | Login string string
  | ProtP
  | SetPasv bool
  | Cwd string
  | Mkd string
  | Storbinary string bytes
  | Retrbinary string
  | Nlst string
  | Delete string
  | Rename string string
  | GetWelcome
  | Exit

text \<open>
  What the client object does when a method is invoked, over a state \<open>'st\<close> that stands
  for the client object together with the remote server. A method either returns or
  raises, and leaves a new state in both cases. \<open>on_construct\<close> (the constructor) and
  \<open>on_set_ssl_version\<close> (the attribute assignment \<^verbatim>\<open>client.ssl_version = security\<close>) only
  change the local object. \<open>on_retrbinary\<close> returns the blocks it hands to the callback,
  in order. \<open>on_exit\<close> is taken not to raise.
\<close>

record 'st ftp_client =
  on_construct :: "client_class \<Rightarrow> 'st \<Rightarrow> 'st"
  on_set_ssl_version :: "ssl_protocol \<Rightarrow> 'st \<Rightarrow> 'st"
  on_connect :: "string \<Rightarrow> int \<Rightarrow> 'st \<Rightarrow> (exn + unit) \<times> 'st"
  on_login :: "string \<Rightarrow> string \<Rightarrow> 'st \<Rightarrow> (exn + unit) \<times> 'st"
  on_prot_p :: "'st \<Rightarrow> (exn + unit) \<times> 'st"
  on_set_pasv :: "bool \<Rightarrow> 'st \<Rightarrow> (exn + unit) \<times> 'st"
  on_cwd :: "string \<Rightarrow> 'st \<Rightarrow> (exn + unit) \<times> 'st"
  on_mkd :: "string \<Rightarrow> 'st \<Rightarrow> (exn + unit) \<times> 'st"
  on_storbinary :: "string \<Rightarrow> bytes \<Rightarrow> 'st \<Rightarrow> (exn + unit) \<times> 'st"
  on_retrbinary :: "string \<Rightarrow> 'st \<Rightarrow> (exn + bytes list) \<times> 'st"
  on_nlst :: "string \<Rightarrow> 'st \<Rightarrow> (exn + string list) \<times> 'st"
  on_delete :: "string \<Rightarrow> 'st \<Rightarrow> (exn + string) \<times> 'st"
  on_rename :: "string \<Rightarrow> string \<Rightarrow> 'st \<Rightarrow> (exn + unit) \<times> 'st"
  on_getwelcome :: "'st \<Rightarrow> (exn + string) \<times> 'st"
  on_exit :: "'st \<Rightarrow> 'st"

text \<open>The world: the calls made so far, oldest first, and the state they left.\<close>

record 'st world =
  calls :: "call list"
  remote :: "'st"

type_synonym ('a, 'st) action = "'st world \<Rightarrow> (exn + 'a) \<times> 'st world"

definition invoke :: "call \<Rightarrow> ('st \<Rightarrow> (exn + 'a) \<times> 'st) \<Rightarrow> ('a, 'st) action" where
  "invoke c f w =
     (case f (remote w) of (r, s) \<Rightarrow> (r, \<lparr>calls = calls w @ [c], remote = s\<rparr>))"

definition local_update :: "('st \<Rightarrow> 'st) \<Rightarrow> 'st world \<Rightarrow> 'st world" where
  "local_update f w = w\<lparr>remote := f (remote w)\<rparr>"

definition client_connect :: "'st ftp_client \<Rightarrow> string \<Rightarrow> int \<Rightarrow> (unit, 'st) action" where
  "client_connect client host port = invoke (Connect host port) (on_connect client host port)"

definition client_login :: "'st ftp_client \<Rightarrow> string \<Rightarrow> string \<Rightarrow> (unit, 'st) action" where
  "client_login client user passwd = invoke (Login user passwd) (on_login client user passwd)"

definition client_prot_p :: "'st ftp_client \<Rightarrow> (unit, 'st) action" where
  "client_prot_p client = invoke ProtP (on_prot_p client)"

definition client_set_pasv :: "'st ftp_client \<Rightarrow> bool \<Rightarrow> (unit, 'st) action" where
  "client_set_pasv client val = invoke (SetPasv val) (on_set_pasv client val)"

definition client_cwd :: "'st ftp_client \<Rightarrow> string \<Rightarrow> (unit, 'st) action" where
  "client_cwd client path = invoke (Cwd path) (on_cwd client path)"

definition client_mkd :: "'st ftp_client \<Rightarrow> string \<Rightarrow> (unit, 'st) action" where
  "client_mkd client path = invoke (Mkd path) (on_mkd client path)"

definition client_storbinary :: "'st ftp_client \<Rightarrow> string \<Rightarrow> bytes \<Rightarrow> (unit, 'st) action" where
  "client_storbinary client cmd data = invoke (Storbinary cmd data) (on_storbinary client cmd data)"

definition client_retrbinary :: "'st ftp_client \<Rightarrow> string \<Rightarrow> (bytes list, 'st) action" where
  "client_retrbinary client cmd = invoke (Retrbinary cmd) (on_retrbinary client cmd)"

definition client_nlst :: "'st ftp_client \<Rightarrow> string \<Rightarrow> (string list, 'st) action" where
  "client_nlst client path = invoke (Nlst path) (on_nlst client path)"

definition client_delete :: "'st ftp_client \<Rightarrow> string \<Rightarrow> (string, 'st) action" where
  "client_delete client path = invoke (Delete path) (on_delete client path)"

definition client_rename :: "'st ftp_client \<Rightarrow> string \<Rightarrow> string \<Rightarrow> (unit, 'st) action" where
  "client_rename client fromname toname =
     invoke (Rename fromname toname) (on_rename client fromname toname)"

definition client_getwelcome :: "'st ftp_client \<Rightarrow> (string, 'st) action" where
  "client_getwelcome client = invoke GetWelcome (on_getwelcome client)"

definition client_exit :: "'st ftp_client \<Rightarrow> 'st world \<Rightarrow> 'st world" where
  "client_exit client w = \<lparr>calls = calls w @ [Exit], remote = on_exit client (remote w)\<rparr>"

section \<open>Recursive remote directory creation\<close>

text \<open>
  \<^verbatim>\<open>
  def ftp_mkdirs(client, path):
      try:
          client.mkd(path)
      except IOError as e:
          if e.errno == errno.ENOENT and path:
              ftp_mkdirs(client, os.path.dirname(path))
              client.mkd(path)
          else:
              raise
  \<close>
  The recursion is not bounded by the source, so the model is a partial function:
  \<open>None\<close> is a recursion without end, which CPython would cut with
  \<^verbatim>\<open>RecursionError\<close>.
\<close>

partial_function (option) ftp_mkdirs ::
  "'st ftp_client \<Rightarrow> string \<Rightarrow> 'st world \<Rightarrow> ((exn + unit) \<times> 'st world) option" where
  "ftp_mkdirs client path w =
     (case client_mkd client path w of
        (Inr u, w1) \<Rightarrow> Some (Inr (), w1)
      | (Inl e, w1) \<Rightarrow>
          if is_OSError e then
            if errno e = Some ENOENT \<and> path \<noteq> [] then
              Option.bind (ftp_mkdirs client (dirname path) w1)
                (\<lambda>(r, w2). case r of
                     Inl e' \<Rightarrow> Some (Inl e', w2)
                   | Inr u \<Rightarrow> Some (client_mkd client path w2))
            else Some (Inl e, w1)
          else Some (Inl e, w1))"

section \<open>Security mapping and backend configuration\<close>

text \<open>
  An entry of \<^verbatim>\<open>FTP_SECURITY_TO_PROTOCOL\<close> is either a protocol constant of the \<^verbatim>\<open>ssl\<close>
  module or a string, the reason why the protocol is disabled
  (\<^verbatim>\<open>isinstance(security, str)\<close>).
\<close>

datatype security_entry = Protocol ssl_protocol | Deprecated string

definition FTP_SECURITY_TO_PROTOCOL :: "(string \<times> security_entry) list" where
  "FTP_SECURITY_TO_PROTOCOL =
     [(''tls'', Protocol PROTOCOL_TLS),
      (''tlsv1'', Protocol PROTOCOL_TLSv1),
      (''tlsv1_1'', Protocol PROTOCOL_TLSv1_1),
      (''tlsv1_2'', Protocol PROTOCOL_TLSv1_2),
      (''sslv2'', Deprecated ''sslv2 has been deprecated due to security issues''),
      (''sslv23'', Protocol PROTOCOL_SSLv23),
      (''sslv3'', Deprecated ''sslv3 has been deprecated due to security issues'')]"

text \<open>The fields of the backend record (\<^verbatim>\<open>self.collection\<close>) that the adapter reads.\<close>

record backend =
  ftp_encryption :: string
  ftp_security :: string
  ftp_server :: string
  ftp_port :: int
  ftp_login :: string
  ftp_password :: string
  ftp_passive :: bool

section \<open>Sequencing\<close>

definition return :: "'a \<Rightarrow> ('a, 'st) action" where
  "return a w = (Inr a, w)"

definition and_then :: "('a, 'st) action \<Rightarrow> ('a \<Rightarrow> ('b, 'st) action) \<Rightarrow> ('b, 'st) action" where
  "and_then m f w = (case m w of (Inl e, w1) \<Rightarrow> (Inl e, w1) | (Inr a, w1) \<Rightarrow> f a w1)"

section \<open>Session factory\<close>

text \<open>
  \<^verbatim>\<open>ftp(backend)\<close> is a generator used as a context manager. Its first part chooses
  and constructs the client, and for implicit TLS looks the security preference up:
  \<^verbatim>\<open>
  if backend.ftp_encryption == "ftp":
      _ftp = ftplib.FTP()
  elif backend.ftp_encryption == "tls":
      _ftp = ImplicitFTPTLS()
      security = FTP_SECURITY_TO_PROTOCOL.get(backend.ftp_security, None)
      prot_p = True
      if isinstance(security, str):
          raise UserError(security)
  elif backend.ftp_encryption == "tls_explicit":
      _ftp = ftplib.FTP_TLS()
      prot_p = True
  \<close>
  The result is \<open>(security, prot_p)\<close>. It is only run for one of the three modes.
\<close>

definition select_client ::
  "'st ftp_client \<Rightarrow> backend \<Rightarrow> (ssl_protocol option \<times> bool, 'st) action" where
  "select_client client backend w =
     (if ftp_encryption backend = ''ftp'' then
        (Inr (None, False), local_update (on_construct client FTP) w)
      else if ftp_encryption backend = ''tls'' then
        (let w0 = local_update (on_construct client ImplicitFTPTLS) w;
             security = map_of FTP_SECURITY_TO_PROTOCOL (ftp_security backend)
         in case security of
              Some (Deprecated reason) \<Rightarrow> (Inl (UserError reason), w0)
            | Some (Protocol version) \<Rightarrow> (Inr (Some version, True), w0)
            | None \<Rightarrow> (Inr (None, True), w0))
      else
        (Inr (None, True), local_update (on_construct client FTP_TLS) w))"

text \<open>
  Inside \<^verbatim>\<open>with _ftp as client\<close>, up to the \<^verbatim>\<open>yield\<close>:
  \<^verbatim>\<open>
  if security:
      client.ssl_version = security
  client.connect(host=backend.ftp_server, port=backend.ftp_port)
  client.login(backend.ftp_login, backend.ftp_password)
  if prot_p:
      client.prot_p()
  if backend.ftp_passive:
      client.set_pasv(True)
  \<close>
  Every protocol constant of the table is a non-zero integer, hence true.
\<close>

definition open_session ::
  "'st ftp_client \<Rightarrow> backend \<Rightarrow> ssl_protocol option \<Rightarrow> bool \<Rightarrow> (unit, 'st) action" where
  "open_session client backend security prot_p w0 =
     and_then (client_connect client (ftp_server backend) (ftp_port backend)) (\<lambda>u.
     and_then (client_login client (ftp_login backend) (ftp_password backend)) (\<lambda>u.
     and_then (if prot_p then client_prot_p client else return ()) (\<lambda>u.
       if ftp_passive backend then client_set_pasv client True else return ())))
       (case security of
          Some version \<Rightarrow> local_update (on_set_ssl_version client version) w0
        | None \<Rightarrow> w0)"

text \<open>
  \<open>ftp_enter\<close> is the run of the generator up to its \<^verbatim>\<open>yield\<close>. A \<^verbatim>\<open>UserError\<close> for a
  disabled protocol is raised before the \<^verbatim>\<open>with _ftp as client\<close> block is entered; an
  exception inside the block leaves it through the client's \<^verbatim>\<open>__exit__\<close>. A generator
  that does not yield (an encryption mode outside the three) makes \<^verbatim>\<open>contextlib\<close>
  raise \<^verbatim>\<open>RuntimeError\<close>.
\<close>

definition ftp_enter :: "'st ftp_client \<Rightarrow> backend \<Rightarrow> (unit, 'st) action" where
  "ftp_enter client backend w =
     (if ftp_encryption backend \<in> set [''ftp'', ''tls'', ''tls_explicit''] then
        (case select_client client backend w of
           (Inl e, w0) \<Rightarrow> (Inl e, w0)
         | (Inr (security, prot_p), w0) \<Rightarrow>
             (case open_session client backend security prot_p w0 of
                (Inl e, w1) \<Rightarrow> (Inl e, client_exit client w1)
              | (Inr u, w1) \<Rightarrow> (Inr (), w1)))
      else (Inl (RuntimeError ''generator didn't yield''), w))"

text \<open>
  \<^verbatim>\<open>with ftp(backend) as client: body\<close>: the body runs in the world the session setup
  left; however the body ends, the generator is resumed and the client's \<^verbatim>\<open>__exit__\<close>
  runs; the body's result or exception is the result of the whole.
\<close>

definition ftp :: "'st ftp_client \<Rightarrow> backend \<Rightarrow> ('a, 'st) action \<Rightarrow> ('a, 'st) action" where
  "ftp client backend body w =
     (case ftp_enter client backend w of
        (Inl e, w1) \<Rightarrow> (Inl e, w1)
      | (Inr u, w1) \<Rightarrow> (case body w1 of (r, w2) \<Rightarrow> (r, client_exit client w2)))"

section \<open>The implicit-TLS client class\<close>

text \<open>
  A socket value is an \<^verbatim>\<open>ssl.SSLSocket\<close> or some other socket
  (\<^verbatim>\<open>isinstance(value, ssl.SSLSocket)\<close>). \<^verbatim>\<open>self.context.wrap_socket\<close> is the \<^verbatim>\<open>ssl\<close>
  module's: it returns an \<^verbatim>\<open>SSLSocket\<close> or raises; it is a parameter here.
\<close>

datatype ('p, 's) socket = PlainSocket 'p | SSLSocket 's

record ('c, 'p, 's) implicit_ftp_tls =
  ssl_context :: 'c
  sock_field :: "('p, 's) socket option"

fun isinstance_SSLSocket :: "('p, 's) socket \<Rightarrow> bool" where
  "isinstance_SSLSocket (SSLSocket s) = True"
| "isinstance_SSLSocket (PlainSocket p) = False"

text \<open>\<^verbatim>\<open>__init__\<close>: after the base class constructor, \<^verbatim>\<open>self._sock = None\<close>.\<close>

definition ImplicitFTPTLS_init :: "'c \<Rightarrow> ('c, 'p, 's) implicit_ftp_tls" where
  "ImplicitFTPTLS_init ctx = \<lparr>ssl_context = ctx, sock_field = None\<rparr>"

definition sock_getter :: "('c, 'p, 's) implicit_ftp_tls \<Rightarrow> ('p, 's) socket option" where
  "sock_getter self = sock_field self"

text \<open>
  \<^verbatim>\<open>
  @sock.setter
  def sock(self, value):
      if value is not None and not isinstance(value, ssl.SSLSocket):
          value = self.context.wrap_socket(value)
      self._sock = value
  \<close>
  When \<^verbatim>\<open>wrap_socket\<close> raises, the assignment does not happen and the object is as it was.
\<close>

definition sock_setter ::
  "('c \<Rightarrow> 'p \<Rightarrow> exn + 's) \<Rightarrow> ('c, 'p, 's) implicit_ftp_tls \<Rightarrow> ('p, 's) socket option
     \<Rightarrow> exn + ('c, 'p, 's) implicit_ftp_tls" where
  "sock_setter wrap_socket self value =
     (case
        (case value of
           Some (PlainSocket p) \<Rightarrow>
             (case wrap_socket (ssl_context self) p of
                Inl e \<Rightarrow> Inl e
              | Inr s \<Rightarrow> Inr (Some (SSLSocket s)))
         | _ \<Rightarrow> Inr value)
      of
        Inl e \<Rightarrow> Inl e
      | Inr value' \<Rightarrow> Inr (self\<lparr>sock_field := value'\<rparr>))"

text \<open>The object after an assignment statement: unchanged when the setter raised.\<close>

definition after_assignment ::
  "('c \<Rightarrow> 'p \<Rightarrow> exn + 's) \<Rightarrow> ('c, 'p, 's) implicit_ftp_tls \<Rightarrow> ('p, 's) socket option
     \<Rightarrow> ('c, 'p, 's) implicit_ftp_tls" where
  "after_assignment wrap_socket self value =
     (case sock_setter wrap_socket self value of Inl e \<Rightarrow> self | Inr self' \<Rightarrow> self')"

definition tls_wrapped_or_absent :: "('c, 'p, 's) implicit_ftp_tls \<Rightarrow> bool" where
  "tls_wrapped_or_absent self =
     (case sock_getter self of None \<Rightarrow> True | Some v \<Rightarrow> isinstance_SSLSocket v)"

section \<open>File operations\<close>

text \<open>
  \<^verbatim>\<open>self._fullpath\<close> belongs to the base adapter and is a parameter \<open>fullpath\<close> of every
  operation.

  The directory step of \<^verbatim>\<open>add\<close>:
  \<^verbatim>\<open>
  if dirname:
      try:
          client.cwd(dirname)
      except IOError as e:
          if e.errno == errno.ENOENT:
              ftp_mkdirs(client, dirname)
          else:
              raise
  \<close>
\<close>

definition add_enter_dir ::
  "'st ftp_client \<Rightarrow> string \<Rightarrow> 'st world \<Rightarrow> ((exn + unit) \<times> 'st world) option" where
  "add_enter_dir client dirname' w =
     (if dirname' \<noteq> [] then
        (case client_cwd client dirname' w of
           (Inr u, w1) \<Rightarrow> Some (Inr (), w1)
         | (Inl e, w1) \<Rightarrow>
             if is_OSError e then
               if errno e = Some ENOENT then ftp_mkdirs client dirname' w1
               else Some (Inl e, w1)
             else Some (Inl e, w1))
      else Some (Inr (), w))"

text \<open>
  The upload of \<^verbatim>\<open>add\<close>:
  \<^verbatim>\<open>
  try:
      client.storbinary("STOR " + full_path, tmp_file)
  except ftplib.Error as e:
      raise ValueError(repr(e)) from e
  except OSError as e:
      raise ValueError(repr(e)) from e
  \<close>
\<close>

definition add_upload :: "'st ftp_client \<Rightarrow> string \<Rightarrow> bytes \<Rightarrow> (unit, 'st) action" where
  "add_upload client full_path data w =
     (case client_storbinary client (''STOR '' @ full_path) data w of
        (Inr u, w1) \<Rightarrow> (Inr (), w1)
      | (Inl e, w1) \<Rightarrow>
          if is_ftplib_Error e then (Inl (ValueError e), w1)
          else if is_OSError e then (Inl (ValueError e), w1)
          else (Inl e, w1))"

definition add ::
  "(string \<Rightarrow> string) \<Rightarrow> 'st ftp_client \<Rightarrow> backend \<Rightarrow> string \<Rightarrow> bytes \<Rightarrow> 'st world
     \<Rightarrow> ((exn + unit) \<times> 'st world) option" where
  "add fullpath client backend relative_path data w =
     (case ftp_enter client backend w of
        (Inl e, w1) \<Rightarrow> Some (Inl e, w1)
      | (Inr u, w1) \<Rightarrow>
          (let full_path = fullpath relative_path
           in map_option (\<lambda>(r, w3). (r, client_exit client w3))
                (Option.bind (add_enter_dir client (dirname full_path) w1)
                   (\<lambda>(r, w2). case r of
                        Inl e \<Rightarrow> Some (Inl e, w2)
                      | Inr u \<Rightarrow> Some (add_upload client full_path data w2)))))"

text \<open>
  \<^verbatim>\<open>
  full_path = self._fullpath(relative_path)
  with ftp(self.collection) as client, BytesIO() as buff:
      try:
          client.retrbinary("RETR " + full_path, buff.write)
          data = buff.getvalue()
      except ftplib.Error as e:
          raise FileNotFoundError(repr(e)) from e
  return data
  \<close>
\<close>

definition get ::
  "(string \<Rightarrow> string) \<Rightarrow> 'st ftp_client \<Rightarrow> backend \<Rightarrow> string \<Rightarrow> (bytes, 'st) action" where
  "get fullpath client backend relative_path =
     (let full_path = fullpath relative_path
      in ftp client backend
           (\<lambda>w. case client_retrbinary client (''RETR '' @ full_path) w of
                  (Inr blocks, w1) \<Rightarrow> (Inr (concat blocks), w1)
                | (Inl e, w1) \<Rightarrow>
                    if is_ftplib_Error e then (Inl (FileNotFoundError e), w1)
                    else (Inl e, w1)))"

text \<open>
  \<^verbatim>\<open>
  full_path = self._fullpath(relative_path)
  with ftp(self.collection) as client:
      try:
          return client.nlst(full_path)
      except IOError as e:
          if e.errno == errno.ENOENT:
              return []
          else:
              raise
  \<close>
\<close>

definition list ::
  "(string \<Rightarrow> string) \<Rightarrow> 'st ftp_client \<Rightarrow> backend \<Rightarrow> string \<Rightarrow> (string list, 'st) action" where
  "list fullpath client backend relative_path =
     (let full_path = fullpath relative_path
      in ftp client backend
           (\<lambda>w. case client_nlst client full_path w of
                  (Inr names, w1) \<Rightarrow> (Inr names, w1)
                | (Inl e, w1) \<Rightarrow>
                    if is_OSError e then
                      if errno e = Some ENOENT then (Inr [], w1) else (Inl e, w1)
                    else (Inl e, w1)))"

text \<open>
  The body of the loop of \<^verbatim>\<open>move_files\<close>, for one \<^verbatim>\<open>ftp_file\<close>:
  \<^verbatim>\<open>
  dest_file_path = os.path.join(destination_path, os.path.basename(ftp_file))
  result = []
  try:
      result = client.nlst(dest_file_path)
  except ftplib.Error:
      _logger.debug("destination %s is free", dest_file_path)
  if result:
      client.delete(dest_file_path)
  client.rename(fp(ftp_file), fp(dest_file_path))
  \<close>
\<close>

definition probe_destination :: "'st ftp_client \<Rightarrow> string \<Rightarrow> (string list, 'st) action" where
  "probe_destination client dest_file_path w =
     (case client_nlst client dest_file_path w of
        (Inr names, w1) \<Rightarrow> (Inr names, w1)
      | (Inl e, w1) \<Rightarrow> if is_ftplib_Error e then (Inr [], w1) else (Inl e, w1))"

definition move_file ::
  "(string \<Rightarrow> string) \<Rightarrow> 'st ftp_client \<Rightarrow> string \<Rightarrow> string \<Rightarrow> (unit, 'st) action" where
  "move_file fp client destination_path ftp_file =
     (let dest_file_path = join destination_path (basename ftp_file)
      in and_then (probe_destination client dest_file_path) (\<lambda>result.
         and_then (if result \<noteq> [] then
                     and_then (client_delete client dest_file_path) (\<lambda>resp. return ())
                   else return ()) (\<lambda>u.
           client_rename client (fp ftp_file) (fp dest_file_path))))"

text \<open>\<^verbatim>\<open>for ftp_file in files: ...\<close>\<close>

fun move_loop ::
  "(string \<Rightarrow> string) \<Rightarrow> 'st ftp_client \<Rightarrow> string \<Rightarrow> string list \<Rightarrow> (unit, 'st) action" where
  "move_loop fp client destination_path [] = return ()"
| "move_loop fp client destination_path (ftp_file # files) =
     and_then (move_file fp client destination_path ftp_file)
       (\<lambda>u. move_loop fp client destination_path files)"

definition move_files ::
  "(string \<Rightarrow> string) \<Rightarrow> 'st ftp_client \<Rightarrow> backend \<Rightarrow> string list \<Rightarrow> string
     \<Rightarrow> (unit, 'st) action" where
  "move_files fullpath client backend files destination_path =
     ftp client backend (move_loop fullpath client destination_path files)"

text \<open>
  \<^verbatim>\<open>
  full_path = self._fullpath(relative_path)
  with ftp(self.collection) as client:
      return client.delete(full_path)
  \<close>
\<close>

definition delete ::
  "(string \<Rightarrow> string) \<Rightarrow> 'st ftp_client \<Rightarrow> backend \<Rightarrow> string \<Rightarrow> (string, 'st) action" where
  "delete fullpath client backend relative_path =
     (let full_path = fullpath relative_path
      in ftp client backend (client_delete client full_path))"

definition validate_config :: "'st ftp_client \<Rightarrow> backend \<Rightarrow> (unit, 'st) action" where
  "validate_config client backend =
     ftp client backend (and_then (client_getwelcome client) (\<lambda>banner. return ()))"

section \<open>A simulated client\<close>

text \<open>
  A client over an in-memory server, for running the adapter on concrete scenarios:
  the directories made (in the order they were made), the files stored, and the
  working directory of the connection. It behaves as the \<^verbatim>\<open>ftplib\<close> clients do: every
  refusal of the server is a protocol error (an \<^verbatim>\<open>ftplib.Error\<close>), never an
  \<^verbatim>\<open>OSError\<close>. A connection starts in the login directory, written \<open>[]\<close>; \<^verbatim>\<open>cwd\<close> moves
  the working directory, and a name that does not start with a separator is taken
  from there. Names are not normalised otherwise. The login directory and the root
  always exist. \<open>on_retrbinary\<close> hands the content over in two blocks.
\<close>

record sim_state =
  sim_dirs :: "string list"
  sim_files :: "(string \<times> bytes) list"
  sim_cwd :: string

text \<open>The name a path stands for on the connection as it is.\<close>

definition resolve :: "sim_state \<Rightarrow> string \<Rightarrow> string" where
  "resolve s p = join (sim_cwd s) p"

definition dir_exists :: "sim_state \<Rightarrow> string \<Rightarrow> bool" where
  "dir_exists s d \<longleftrightarrow> d = [] \<or> d = [sep] \<or> d \<in> set (sim_dirs s)"

definition parent_exists :: "sim_state \<Rightarrow> string \<Rightarrow> bool" where
  "parent_exists s p \<longleftrightarrow> dir_exists s (dirname p)"

definition sim_client :: "sim_state ftp_client" where
  "sim_client = \<lparr>
     on_construct = (\<lambda>cls s. s),
     on_set_ssl_version = (\<lambda>version s. s),
     on_connect = (\<lambda>host port s. (Inr (), s\<lparr>sim_cwd := []\<rparr>)),
     on_login = (\<lambda>user passwd s. (Inr (), s)),
     on_prot_p = (\<lambda>s. (Inr (), s)),
     on_set_pasv = (\<lambda>val s. (Inr (), s)),
     on_cwd = (\<lambda>p s.
       if dir_exists s (resolve s p) then (Inr (), s\<lparr>sim_cwd := resolve s p\<rparr>)
       else (Inl (FtpError ''550''), s)),
     on_mkd = (\<lambda>p s.
       if dir_exists s (resolve s p) then (Inl (FtpError ''550''), s)
       else if parent_exists s (resolve s p)
       then (Inr (), s\<lparr>sim_dirs := sim_dirs s @ [resolve s p]\<rparr>)
       else (Inl (FtpError ''550''), s)),
     on_storbinary = (\<lambda>cmd data s.
       if parent_exists s (resolve s (drop 5 cmd))
       then (Inr (), s\<lparr>sim_files :=
               (resolve s (drop 5 cmd), data)
                 # filter (\<lambda>(q, d). q \<noteq> resolve s (drop 5 cmd)) (sim_files s)\<rparr>)
       else (Inl (FtpError ''553''), s)),
     on_retrbinary = (\<lambda>cmd s.
       case map_of (sim_files s) (resolve s (drop 5 cmd)) of
         Some data \<Rightarrow> (Inr [take 2 data, drop 2 data], s)
       | None \<Rightarrow> (Inl (FtpError ''550''), s)),
     on_nlst = (\<lambda>p s.
       if resolve s p \<in> fst ` set (sim_files s) then (Inr [p], s)
       else if dir_exists s (resolve s p)
       then (Inr (map (\<lambda>q. join p (basename q))
                    (filter (\<lambda>q. dirname q = resolve s p) (map fst (sim_files s)))), s)
       else (Inl (FtpError ''550''), s)),
     on_delete = (\<lambda>p s.
       if resolve s p \<in> fst ` set (sim_files s)
       then (Inr ''250'',
             s\<lparr>sim_files := filter (\<lambda>(q, d). q \<noteq> resolve s p) (sim_files s)\<rparr>)
       else (Inl (FtpError ''550''), s)),
     on_rename = (\<lambda>fromname toname s.
       case map_of (sim_files s) (resolve s fromname) of
         Some data \<Rightarrow>
           if parent_exists s (resolve s toname)
           then (Inr (), s\<lparr>sim_files :=
                   (resolve s toname, data)
                     # filter (\<lambda>(q, d). q \<noteq> resolve s fromname \<and> q \<noteq> resolve s toname)
                         (sim_files s)\<rparr>)
           else (Inl (FtpError ''553''), s)
       | None \<Rightarrow> (Inl (FtpError ''550''), s)),
     on_getwelcome = (\<lambda>s. (Inr ''220'', s)),
     on_exit = (\<lambda>s. s)\<rparr>"

definition fresh_world :: "sim_state world" where
  "fresh_world = \<lparr>calls = [], remote = \<lparr>sim_dirs = [], sim_files = [], sim_cwd = []\<rparr>\<rparr>"

text \<open>A backend record for the scenarios, by encryption mode and security preference.\<close>

definition example_backend :: "string \<Rightarrow> string \<Rightarrow> backend" where
  "example_backend encryption security =
     \<lparr>ftp_encryption = encryption, ftp_security = security,
      ftp_server = ''ftp.example.org'', ftp_port = 21,
      ftp_login = ''user'', ftp_password = ''secret'', ftp_passive = False\<rparr>"

text \<open>
  Clients for the scenarios, each the simulated client with methods replaced: a
  listing that times out, a server that refuses every delete, and transfers that
  break off.
\<close>

definition timeout_listing_client :: "sim_state ftp_client" where
  "timeout_listing_client = sim_client\<lparr>on_nlst := (\<lambda>p s. (Inl (OSError None), s))\<rparr>"

definition readonly_client :: "sim_state ftp_client" where
  "readonly_client = sim_client\<lparr>on_delete := (\<lambda>p s. (Inl (FtpError ''550''), s))\<rparr>"

definition broken_pipe_client :: "sim_state ftp_client" where
  "broken_pipe_client = sim_client
     \<lparr>on_storbinary := (\<lambda>cmd data s. (Inl (OSError (Some 32)), s)),
      on_retrbinary := (\<lambda>cmd s. (Inl (OSError (Some 32)), s))\<rparr>"

definition plain_backend :: backend where
  "plain_backend = example_backend ''ftp'' []"

text \<open>The calls that open a session for \<open>plain_backend\<close>.\<close>

definition session_calls :: "call list" where
  "session_calls = [Connect ''ftp.example.org'' 21, Login ''user'' ''secret'']"

text \<open>A resolution of relative paths for the scenarios: a root directory in front.\<close>

definition under_srv :: "string \<Rightarrow> string" where
  "under_srv relative_path = ''/srv/'' @ relative_path"

text \<open>A server holding \<open>/srv/a/x.txt\<close> and \<open>/srv/b/x.txt\<close>.\<close>

definition srv_world :: "sim_state world" where
  "srv_world =
     \<lparr>calls = [],
      remote = \<lparr>sim_dirs = [''/srv'', ''/srv/a'', ''/srv/b''],
                sim_files = [(''/srv/a/x.txt'', [1]), (''/srv/b/x.txt'', [2])],
                sim_cwd = []\<rparr>\<rparr>"

text \<open>A server holding \<open>a/y.txt\<close>, \<open>a/x.txt\<close> and \<open>b/x.txt\<close> under its login directory.\<close>

definition flat_world :: "sim_state world" where
  "flat_world =
     \<lparr>calls = [],
      remote = \<lparr>sim_dirs = [''a'', ''b''],
                sim_files = [(''a/y.txt'', [3]), (''a/x.txt'', [1]), (''b/x.txt'', [2])],
                sim_cwd = []\<rparr>\<rparr>"

text \<open>
  A server holding \<open>a/b.txt\<close> under its login directory, where the directory \<open>a\<close> has
  a subdirectory of the same name.
\<close>

definition nested_world :: "sim_state world" where
  "nested_world =
     \<lparr>calls = [],
      remote = \<lparr>sim_dirs = [''a'', ''a/a''], sim_files = [(''a/b.txt'', [9])],
                sim_cwd = []\<rparr>\<rparr>"

text \<open>
  A root path: nothing but separators. \<^verbatim>\<open>os.path.dirname\<close> leaves such a path as it is
  (its test \<^verbatim>\<open>head != sep*len(head)\<close>).
\<close>

definition is_root :: "string \<Rightarrow> bool" where
  "is_root p \<longleftrightarrow> p \<noteq> [] \<and> p = replicate (length p) sep"


section \<open>Path lemmas\<close>

lemma head_basename: "head_upto_sep p @ basename p = p"
proof -
  have "rev (takeWhile (\<lambda>c. c \<noteq> sep) (rev p) @ dropWhile (\<lambda>c. c \<noteq> sep) (rev p)) = p"
    by simp
  then show ?thesis
    unfolding head_upto_sep_def basename_def rev_append .
qed

lemma rstrip_sep_prefix: "rstrip_sep h @ rev (takeWhile (\<lambda>c. c = sep) (rev h)) = h"
proof -
  have "rev (takeWhile (\<lambda>c. c = sep) (rev h) @ dropWhile (\<lambda>c. c = sep) (rev h)) = h"
    by simp
  then show ?thesis
    unfolding rstrip_sep_def rev_append .
qed

lemma dirname_prefix: "\<exists>t. dirname p @ t = p"
proof (cases "head_upto_sep p \<noteq> [] \<and> head_upto_sep p \<noteq> replicate (length (head_upto_sep p)) sep")
  case True
  then have "dirname p = rstrip_sep (head_upto_sep p)"
    by (simp add: dirname_def)
  then have "dirname p @ (rev (takeWhile (\<lambda>c. c = sep) (rev (head_upto_sep p))) @ basename p) = p"
    using rstrip_sep_prefix [of "head_upto_sep p"] head_basename [of p]
    by (simp flip: append_assoc)
  then show ?thesis by blast
next
  case False
  then have "dirname p = head_upto_sep p"
    by (auto simp: dirname_def)
  then show ?thesis
    using head_basename [of p] by metis
qed

lemma rstrip_sep_shorter:
  "h \<noteq> [] \<Longrightarrow> last h = sep \<Longrightarrow> length (rstrip_sep h) < length h"
  unfolding rstrip_sep_def
  by (cases "rev h") (auto simp: last_rev less_Suc_eq_le length_dropWhile_le)

lemma head_upto_sep_last:
  assumes "head_upto_sep p \<noteq> []"
  shows "last (head_upto_sep p) = sep"
proof -
  from assms have ne: "dropWhile (\<lambda>c. c \<noteq> sep) (rev p) \<noteq> []"
    by (simp add: head_upto_sep_def)
  then have "hd (dropWhile (\<lambda>c. c \<noteq> sep) (rev p)) = sep"
    using hd_dropWhile [OF ne] by simp
  then show ?thesis
    using ne by (simp add: head_upto_sep_def last_rev)
qed

text \<open>The parent of a non-empty path that does not start with a separator is strictly shorter.\<close>

lemma dirname_shorter:
  assumes "p \<noteq> []" and "hd p \<noteq> sep"
  shows "length (dirname p) < length p"
proof (cases "head_upto_sep p = []")
  case True
  then show ?thesis
    using assms by (simp add: dirname_def)
next
  case False
  have t: "head_upto_sep p @ basename p = p"
    by (rule head_basename)
  have hdh: "hd (head_upto_sep p) = hd p"
    using False hd_append2 [OF False, of "basename p"] t by simp
  have "hd (replicate (length (head_upto_sep p)) sep) = sep"
    using False by simp
  then have "head_upto_sep p \<noteq> replicate (length (head_upto_sep p)) sep"
    using hdh assms(2) by auto
  then have "dirname p = rstrip_sep (head_upto_sep p)"
    using False by (simp add: dirname_def)
  moreover have "length (rstrip_sep (head_upto_sep p)) < length (head_upto_sep p)"
    using False head_upto_sep_last rstrip_sep_shorter by blast
  moreover have "length (head_upto_sep p) \<le> length p"
    using arg_cong [OF t, of length] by simp
  ultimately show ?thesis by simp
qed

lemma dirname_relative:
  assumes "hd p \<noteq> sep" and "dirname p \<noteq> []"
  shows "hd (dirname p) \<noteq> sep"
proof -
  obtain t where "dirname p @ t = p"
    using dirname_prefix by blast
  then have "hd p = hd (dirname p)"
    using assms(2) hd_append2 by metis
  then show ?thesis
    using assms(1) by simp
qed

text \<open>The root is its own parent.\<close>

lemma dirname_root: "dirname ''/'' = ''/''"
  by (simp add: dirname_def head_upto_sep_def sep_def)

section \<open>Session factory: disabled protocols\<close>

lemma disabled_entries:
  "map_of FTP_SECURITY_TO_PROTOCOL k = Some (Deprecated reason) \<longleftrightarrow>
     (k = ''sslv2'' \<and> reason = ''sslv2 has been deprecated due to security issues'') \<or>
     (k = ''sslv3'' \<and> reason = ''sslv3 has been deprecated due to security issues'')"
  by (auto simp: FTP_SECURITY_TO_PROTOCOL_def PROTOCOL_SSLv23_def)

text \<open>
  C1. For an implicit-tls backend whose security preference maps to a disabled-protocol
  entry (these are exactly \<open>sslv2\<close> and \<open>sslv3\<close>), opening the session raises \<open>UserError\<close>
  with the entry's deprecation reason; no call has been made on the client (the list of
  calls is unchanged, only the client object has been constructed), and every operation
  that opens a session, here any \<open>with ftp(...)\<close> body and \<open>add\<close>, fails the same way
  without running its body.
\<close>

theorem disabled_security_fails_before_network:
  assumes "ftp_encryption backend = ''tls''"
    and "map_of FTP_SECURITY_TO_PROTOCOL (ftp_security backend) = Some (Deprecated reason)"
  shows "ftp_enter client backend w =
           (Inl (UserError reason), local_update (on_construct client ImplicitFTPTLS) w)
       \<and> calls (snd (ftp_enter client backend w)) = calls w
       \<and> ftp client backend body w =
           (Inl (UserError reason), local_update (on_construct client ImplicitFTPTLS) w)
       \<and> add fullpath client backend relative_path data w =
           Some (Inl (UserError reason), local_update (on_construct client ImplicitFTPTLS) w)
       \<and> reason = ftp_security backend @ '' has been deprecated due to security issues''
       \<and> (ftp_security backend = ''sslv2'' \<or> ftp_security backend = ''sslv3'')"
proof -
  have enter: "ftp_enter client backend w =
      (Inl (UserError reason), local_update (on_construct client ImplicitFTPTLS) w)"
    using assms by (simp add: ftp_enter_def select_client_def)
  have "reason = ftp_security backend @ '' has been deprecated due to security issues''
      \<and> (ftp_security backend = ''sslv2'' \<or> ftp_security backend = ''sslv3'')"
    using assms(2) unfolding disabled_entries by auto
  then show ?thesis
    using enter by (simp add: ftp_def add_def local_update_def)
qed

theorem disabled_security_fails_before_network_witness:
  "ftp_encryption (example_backend ''tls'' ''sslv3'') = ''tls''
   \<and> map_of FTP_SECURITY_TO_PROTOCOL (ftp_security (example_backend ''tls'' ''sslv3''))
       = Some (Deprecated ''sslv3 has been deprecated due to security issues'')
   \<and> ftp_enter sim_client (example_backend ''tls'' ''sslv3'') fresh_world
       = (Inl (UserError ''sslv3 has been deprecated due to security issues''), fresh_world)
   \<and> calls (snd (ftp_enter sim_client (example_backend ''tls'' ''sslv3'') fresh_world)) = []"
proof -
  have enc: "ftp_encryption (example_backend ''tls'' ''sslv3'') = ''tls''"
    by (simp add: example_backend_def)
  have sec: "map_of FTP_SECURITY_TO_PROTOCOL (ftp_security (example_backend ''tls'' ''sslv3''))
      = Some (Deprecated ''sslv3 has been deprecated due to security issues'')"
    by (simp add: example_backend_def FTP_SECURITY_TO_PROTOCOL_def)
  have same: "local_update (on_construct sim_client ImplicitFTPTLS) fresh_world = fresh_world"
    by (simp add: local_update_def sim_client_def fresh_world_def)
  have none: "calls fresh_world = []"
    by (simp add: fresh_world_def)
  show ?thesis
    using enc sec
      disabled_security_fails_before_network [OF enc sec,
        where client = sim_client and w = fresh_world and fullpath = id
          and relative_path = "[]" and data = "[]" and body = "return ()"]
    by (simp add: same none)
qed

section \<open>Implicit TLS: the socket property\<close>

text \<open>
  C2. Assigning to the socket property of the implicit-TLS client: \<open>None\<close> and a value
  that is already an \<open>SSLSocket\<close> are stored unchanged; any other socket is stored as
  the \<open>SSLSocket\<close> that wrapping it with the client's own TLS context returns; the
  setter raises only when that wrapping raises. So every assignment, completed or not,
  keeps the stored socket absent or TLS-wrapped.
\<close>

theorem sock_setter_keeps_tls_wrapped:
  "(case sock_setter wrap_socket self val of
      Inl e \<Rightarrow> (\<exists>p. val = Some (PlainSocket p) \<and> wrap_socket (ssl_context self) p = Inl e)
    | Inr self' \<Rightarrow>
        tls_wrapped_or_absent self' \<and> ssl_context self' = ssl_context self \<and>
        (case val of
           None \<Rightarrow> sock_getter self' = None
         | Some (SSLSocket s) \<Rightarrow> sock_getter self' = Some (SSLSocket s)
         | Some (PlainSocket p) \<Rightarrow>
             (\<exists>s. wrap_socket (ssl_context self) p = Inr s
                  \<and> sock_getter self' = Some (SSLSocket s))))
   \<and> (tls_wrapped_or_absent self \<longrightarrow>
        tls_wrapped_or_absent (after_assignment wrap_socket self val))"
  by (auto simp: sock_setter_def after_assignment_def tls_wrapped_or_absent_def sock_getter_def
      split: option.splits socket.splits sum.splits)

theorem sock_setter_keeps_tls_wrapped_witness:
  "tls_wrapped_or_absent (ImplicitFTPTLS_init (7::nat) :: (nat, nat, nat \<times> nat) implicit_ftp_tls)
   \<and> sock_setter (\<lambda>c p. Inr (c, p)) (ImplicitFTPTLS_init (7::nat)) (Some (PlainSocket (3::nat)))
       = Inr \<lparr>ssl_context = 7, sock_field = Some (SSLSocket (7, 3))\<rparr>
   \<and> tls_wrapped_or_absent
       (after_assignment (\<lambda>c p. Inr (c, p))
          (ImplicitFTPTLS_init (7::nat) :: (nat, nat, nat \<times> nat) implicit_ftp_tls)
          (Some (PlainSocket (3::nat))))"
proof -
  have init:
    "tls_wrapped_or_absent (ImplicitFTPTLS_init (7::nat) :: (nat, nat, nat \<times> nat) implicit_ftp_tls)"
    by (simp add: tls_wrapped_or_absent_def ImplicitFTPTLS_init_def sock_getter_def)
  show ?thesis
    using init
      sock_setter_keeps_tls_wrapped [where wrap_socket = "\<lambda>c p. Inr (c, p)"
        and self = "ImplicitFTPTLS_init (7::nat) :: (nat, nat, nat \<times> nat) implicit_ftp_tls"
        and val = "Some (PlainSocket (3::nat))"]
    by (simp add: sock_setter_def ImplicitFTPTLS_init_def)
qed



section \<open>The simulated client, method by method\<close>

lemma resolve_at_login [simp]: "sim_cwd s = [] \<Longrightarrow> resolve s p = p"
  by (simp add: resolve_def join_def)

lemma sim_client_session [simp]:
  "on_construct sim_client cls s = s"
  "on_set_ssl_version sim_client version s = s"
  "on_connect sim_client host port s = (Inr (), s\<lparr>sim_cwd := []\<rparr>)"
  "on_login sim_client user passwd s = (Inr (), s)"
  "on_prot_p sim_client s = (Inr (), s)"
  "on_set_pasv sim_client val s = (Inr (), s)"
  "on_exit sim_client s = s"
  by (simp_all add: sim_client_def)

lemma sim_client_dirs [simp]:
  "on_cwd sim_client p s =
     (if dir_exists s (resolve s p) then (Inr (), s\<lparr>sim_cwd := resolve s p\<rparr>)
      else (Inl (FtpError ''550''), s))"
  "on_mkd sim_client p s =
     (if dir_exists s (resolve s p) then (Inl (FtpError ''550''), s)
      else if parent_exists s (resolve s p)
      then (Inr (), s\<lparr>sim_dirs := sim_dirs s @ [resolve s p]\<rparr>)
      else (Inl (FtpError ''550''), s))"
  by (simp_all add: sim_client_def)

lemma sim_client_files [simp]:
  "on_storbinary sim_client cmd data s =
     (if parent_exists s (resolve s (drop 5 cmd))
      then (Inr (), s\<lparr>sim_files :=
              (resolve s (drop 5 cmd), data)
                # filter (\<lambda>(q, d). q \<noteq> resolve s (drop 5 cmd)) (sim_files s)\<rparr>)
      else (Inl (FtpError ''553''), s))"
  "on_retrbinary sim_client cmd s =
     (case map_of (sim_files s) (resolve s (drop 5 cmd)) of
        Some data \<Rightarrow> (Inr [take 2 data, drop 2 data], s)
      | None \<Rightarrow> (Inl (FtpError ''550''), s))"
  "on_nlst sim_client p s =
     (if resolve s p \<in> fst ` set (sim_files s) then (Inr [p], s)
      else if dir_exists s (resolve s p)
      then (Inr (map (\<lambda>q. join p (basename q))
                   (filter (\<lambda>q. dirname q = resolve s p) (map fst (sim_files s)))), s)
      else (Inl (FtpError ''550''), s))"
  "on_delete sim_client p s =
     (if resolve s p \<in> fst ` set (sim_files s)
      then (Inr ''250'',
            s\<lparr>sim_files := filter (\<lambda>(q, d). q \<noteq> resolve s p) (sim_files s)\<rparr>)
      else (Inl (FtpError ''550''), s))"
  "on_rename sim_client fromname toname s =
     (case map_of (sim_files s) (resolve s fromname) of
        Some data \<Rightarrow>
          if parent_exists s (resolve s toname)
          then (Inr (), s\<lparr>sim_files :=
                  (resolve s toname, data)
                    # filter (\<lambda>(q, d). q \<noteq> resolve s fromname \<and> q \<noteq> resolve s toname)
                        (sim_files s)\<rparr>)
          else (Inl (FtpError ''553''), s)
      | None \<Rightarrow> (Inl (FtpError ''550''), s))"
  by (simp_all add: sim_client_def)

lemma dirname_examples [simp]:
  "dirname ''/srv/a/b.txt'' = ''/srv/a''"
  "dirname ''/srv/b/x.txt'' = ''/srv/b''"
  "dirname ''/srv/a'' = ''/srv''"
  "dirname ''/srv'' = ''/''"
  "dirname ''a/b/c'' = ''a/b''"
  "dirname ''a/b.txt'' = ''a''"
  "dirname ''a/a/b.txt'' = ''a/a''"
  "dirname ''b/x.txt'' = ''b''"
  "dirname ''b/y.txt'' = ''b''"
  "dirname ''b.txt'' = []"
  by (simp_all add: dirname_def head_upto_sep_def rstrip_sep_def sep_def)

lemma sim_session_opens:
  "on_connect client = on_connect sim_client \<Longrightarrow>
   on_login client = on_login sim_client \<Longrightarrow>
   on_construct client = on_construct sim_client \<Longrightarrow>
   ftp_enter client plain_backend w =
     (Inr (), \<lparr>calls = calls w @ session_calls, remote = (remote w)\<lparr>sim_cwd := []\<rparr>\<rparr>)"
  by (simp add: ftp_enter_def select_client_def open_session_def plain_backend_def
      example_backend_def and_then_def return_def
      client_connect_def client_login_def invoke_def local_update_def session_calls_def)

lemma plain_session_opens:
  "ftp_enter sim_client plain_backend w =
     (Inr (), \<lparr>calls = calls w @ session_calls, remote = (remote w)\<lparr>sim_cwd := []\<rparr>\<rparr>)"
  "ftp_enter timeout_listing_client plain_backend w =
     (Inr (), \<lparr>calls = calls w @ session_calls, remote = (remote w)\<lparr>sim_cwd := []\<rparr>\<rparr>)"
  "ftp_enter readonly_client plain_backend w =
     (Inr (), \<lparr>calls = calls w @ session_calls, remote = (remote w)\<lparr>sim_cwd := []\<rparr>\<rparr>)"
  "ftp_enter broken_pipe_client plain_backend w =
     (Inr (), \<lparr>calls = calls w @ session_calls, remote = (remote w)\<lparr>sim_cwd := []\<rparr>\<rparr>)"
  by (simp_all add: sim_session_opens timeout_listing_client_def readonly_client_def
      broken_pipe_client_def)

lemma timeout_listing_client_methods [simp]:
  "on_nlst timeout_listing_client p s = (Inl (OSError None), s)"
  "on_exit timeout_listing_client s = s"
  by (simp_all add: timeout_listing_client_def)

lemma readonly_client_methods [simp]:
  "on_delete readonly_client p s = (Inl (FtpError ''550''), s)"
  "on_nlst readonly_client = on_nlst sim_client"
  "on_rename readonly_client = on_rename sim_client"
  "on_exit readonly_client s = s"
  by (simp_all add: readonly_client_def)

lemma broken_pipe_client_methods [simp]:
  "on_storbinary broken_pipe_client cmd data s = (Inl (OSError (Some 32)), s)"
  "on_retrbinary broken_pipe_client cmd s = (Inl (OSError (Some 32)), s)"
  "on_exit broken_pipe_client s = s"
  by (simp_all add: broken_pipe_client_def)

section \<open>Sessions around the file operations\<close>

lemma ftp_opened:
  "ftp_enter client backend w = (Inr u, w1) \<Longrightarrow>
   ftp client backend body w = (case body w1 of (r, w2) \<Rightarrow> (r, client_exit client w2))"
  by (simp add: ftp_def)

lemma ftp_not_opened:
  "ftp_enter client backend w = (Inl e, w1) \<Longrightarrow> ftp client backend body w = (Inl e, w1)"
  by (simp add: ftp_def)


section \<open>Recursive directory creation\<close>

lemma ftp_mkdirs_created:
  "client_mkd client path w = (Inr u, w1) \<Longrightarrow> ftp_mkdirs client path w = Some (Inr (), w1)"
  by (subst ftp_mkdirs.simps) simp

lemma ftp_mkdirs_raises:
  "client_mkd client path w = (Inl e, w1) \<Longrightarrow>
   \<not> (is_OSError e \<and> errno e = Some ENOENT \<and> path \<noteq> []) \<Longrightarrow>
   ftp_mkdirs client path w = Some (Inl e, w1)"
  by (subst ftp_mkdirs.simps) auto

lemma ftp_mkdirs_recurses:
  "client_mkd client path w = (Inl e, w1) \<Longrightarrow> is_OSError e \<Longrightarrow> errno e = Some ENOENT \<Longrightarrow>
   path \<noteq> [] \<Longrightarrow>
   ftp_mkdirs client path w =
     (case ftp_mkdirs client (dirname path) w1 of
        None \<Rightarrow> None
      | Some (Inl e', w2) \<Rightarrow> Some (Inl e', w2)
      | Some (Inr u, w2) \<Rightarrow> Some (client_mkd client path w2))"
  by (subst ftp_mkdirs.simps) (auto split: option.splits sum.splits)

text \<open>
  For a path that does not start with a separator the recursion ends: the parents get
  strictly shorter, stay relative, and the empty path is not recursed on.
\<close>

lemma ftp_mkdirs_returns_relative:
  "path = [] \<or> hd path \<noteq> sep \<Longrightarrow> \<exists>r. ftp_mkdirs client path w = Some r"
proof (induction "length path" arbitrary: path w rule: less_induct)
  case less
  obtain r w1 where mkd: "client_mkd client path w = (r, w1)"
    by (cases "client_mkd client path w")
  show ?case
  proof (cases r)
    case (Inr u)
    then show ?thesis
      using mkd ftp_mkdirs_created by blast
  next
    case (Inl e)
    show ?thesis
    proof (cases "is_OSError e \<and> errno e = Some ENOENT \<and> path \<noteq> []")
      case False
      then show ?thesis
        using mkd Inl ftp_mkdirs_raises by blast
    next
      case True
      then have ne: "path \<noteq> []" and rel: "hd path \<noteq> sep"
        using less.prems by auto
      have "length (dirname path) < length path"
        using ne rel by (rule dirname_shorter)
      moreover have "dirname path = [] \<or> hd (dirname path) \<noteq> sep"
        using rel dirname_relative by blast
      ultimately obtain r' where "ftp_mkdirs client (dirname path) w1 = Some r'"
        using less.hyps by blast
      then show ?thesis
        using mkd Inl True ftp_mkdirs_recurses [of client path w e w1]
        by (auto split: prod.splits sum.splits)
    qed
  qed
qed

lemma is_root_dirname: "is_root p \<Longrightarrow> dirname p = p"
proof -
  assume r: "is_root p"
  then have all: "p = replicate (length p) sep" and ne: "p \<noteq> []"
    by (simp_all add: is_root_def)
  have "dropWhile (\<lambda>c. c \<noteq> sep) (replicate (length p) sep) = replicate (length p) sep"
    using ne by (cases "length p") simp_all
  then have "head_upto_sep p = p"
    using all by (metis head_upto_sep_def rev_replicate)
  then show ?thesis
    using all by (simp add: dirname_def)
qed




text \<open>
  C6. The claim fails with the clients the adapter constructs. They report a missing
  intermediate directory as a protocol error (\<^verbatim>\<open>ftplib.error_perm\<close>), which is not an
  \<^verbatim>\<open>IOError\<close>: the handler of \<open>ftp_mkdirs\<close> does not catch it. On a server without
  \<open>a\<close>, \<open>a/b\<close> and \<open>a/b/c\<close>, \<open>ftp_mkdirs\<close> on \<open>a/b/c\<close> calls \<^verbatim>\<open>mkd\<close> once, makes no
  directory and raises what \<^verbatim>\<open>mkd\<close> raised.
\<close>

theorem ftp_mkdirs_makes_no_parent:
  "ftp_mkdirs sim_client ''a/b/c'' fresh_world
     = Some (Inl (FtpError ''550''), \<lparr>calls = [Mkd ''a/b/c''], remote = remote fresh_world\<rparr>)
   \<and> sim_dirs (remote fresh_world) = []"
  by (simp add: ftp_mkdirs.simps client_mkd_def invoke_def fresh_world_def dir_exists_def
      parent_exists_def sep_def)

section \<open>Listing\<close>

text \<open>
  What \<open>list\<close> does with the outcome of the listing, once the session is open: only an
  \<^verbatim>\<open>IOError\<close> whose errno is \<^verbatim>\<open>ENOENT\<close> is turned into the empty sequence.
\<close>

lemma list_outcomes:
  assumes "ftp_enter client backend w = (Inr (), w1)"
  shows "(\<forall>e w2. client_nlst client (fullpath relative_path) w1 = (Inl e, w2)
            \<and> is_OSError e \<and> errno e = Some ENOENT \<longrightarrow>
          list fullpath client backend relative_path w = (Inr [], client_exit client w2))
       \<and> (\<forall>e w2. client_nlst client (fullpath relative_path) w1 = (Inl e, w2)
            \<and> \<not> (is_OSError e \<and> errno e = Some ENOENT) \<longrightarrow>
          list fullpath client backend relative_path w = (Inl e, client_exit client w2))
       \<and> (\<forall>names w2. client_nlst client (fullpath relative_path) w1 = (Inr names, w2) \<longrightarrow>
          list fullpath client backend relative_path w = (Inr names, client_exit client w2))"
  using assms by (auto simp: list_def ftp_opened)

text \<open>
  C9. The claim fails with the clients the adapter constructs. They report a path that
  does not exist as a protocol error (\<^verbatim>\<open>ftplib.error_perm\<close>), which is not an \<^verbatim>\<open>IOError\<close>:
  the handler of \<open>list\<close> does not catch it, and \<open>list\<close> of a missing directory raises
  it instead of returning the empty sequence.
\<close>

theorem list_missing_path_raises:
  "list under_srv sim_client plain_backend ''missing/dir'' fresh_world
     = (Inl (FtpError ''550''),
        \<lparr>calls = session_calls @ [Nlst ''/srv/missing/dir'', Exit],
         remote = remote fresh_world\<rparr>)"
  by (simp add: Let_def list_def ftp_def plain_session_opens under_srv_def client_nlst_def
      client_exit_def invoke_def fresh_world_def dir_exists_def sep_def)

section \<open>Which failures of a transfer are wrapped\<close>

text \<open>
  C10. Once the session is open: when the download raises an \<^verbatim>\<open>ftplib.Error\<close>, \<open>get\<close>
  raises \<open>FileNotFoundError\<close> carrying that exception as its cause; when the download
  raises anything else, an \<^verbatim>\<open>OSError\<close> in particular, \<open>get\<close> raises that same exception,
  not wrapped. In \<open>add\<close>, after the directory step, an upload that raises an
  \<^verbatim>\<open>ftplib.Error\<close> or an \<^verbatim>\<open>OSError\<close> makes \<open>add\<close> raise \<open>ValueError\<close> carrying it.
\<close>

theorem get_wraps_protocol_errors_only:
  assumes "ftp_enter client backend w = (Inr (), w1)"
  shows "(\<forall>e w2. client_retrbinary client (''RETR '' @ fullpath relative_path) w1 = (Inl e, w2)
            \<and> is_ftplib_Error e \<longrightarrow>
          get fullpath client backend relative_path w
            = (Inl (FileNotFoundError e), client_exit client w2))
       \<and> (\<forall>e w2. client_retrbinary client (''RETR '' @ fullpath relative_path) w1 = (Inl e, w2)
            \<and> is_OSError e \<longrightarrow>
          get fullpath client backend relative_path w = (Inl e, client_exit client w2))
       \<and> (\<forall>e w2. client_retrbinary client (''RETR '' @ fullpath relative_path) w1 = (Inl e, w2)
            \<and> \<not> is_ftplib_Error e \<longrightarrow>
          get fullpath client backend relative_path w = (Inl e, client_exit client w2))
       \<and> (\<forall>e w2 w3. add_enter_dir client (dirname (fullpath relative_path)) w1
              = Some (Inr (), w2)
            \<and> client_storbinary client (''STOR '' @ fullpath relative_path) data w2 = (Inl e, w3)
            \<and> (is_ftplib_Error e \<or> is_OSError e) \<longrightarrow>
          add fullpath client backend relative_path data w
            = Some (Inl (ValueError e), client_exit client w3))"
proof -
  have os: "\<not> is_ftplib_Error e" if "is_OSError e" for e
    using that by (cases e) simp_all
  show ?thesis
    using assms os
    by (auto simp: get_def add_def add_upload_def ftp_opened)
qed

theorem get_wraps_protocol_errors_only_witness:
  "ftp_enter sim_client plain_backend fresh_world
     = (Inr (), \<lparr>calls = session_calls, remote = remote fresh_world\<rparr>)
   \<and> is_ftplib_Error (FtpError ''550'')
   \<and> get id sim_client plain_backend ''b.txt'' fresh_world
     = (Inl (FileNotFoundError (FtpError ''550'')),
        \<lparr>calls = session_calls @ [Retrbinary ''RETR b.txt'', Exit], remote = remote fresh_world\<rparr>)
   \<and> is_OSError (OSError (Some 32))
   \<and> get id broken_pipe_client plain_backend ''b.txt'' fresh_world
     = (Inl (OSError (Some 32)),
        \<lparr>calls = session_calls @ [Retrbinary ''RETR b.txt'', Exit], remote = remote fresh_world\<rparr>)
   \<and> add id broken_pipe_client plain_backend ''b.txt'' [0, 65, 0] fresh_world
     = Some (Inl (ValueError (OSError (Some 32))),
        \<lparr>calls = session_calls @ [Storbinary ''STOR b.txt'' [0, 65, 0], Exit],
         remote = remote fresh_world\<rparr>)"
proof -
  let ?w1 = "\<lparr>calls = session_calls, remote = remote fresh_world\<rparr>"
  let ?w2 = "\<lparr>calls = session_calls @ [Retrbinary ''RETR b.txt''], remote = remote fresh_world\<rparr>"
  let ?w3 = "\<lparr>calls = session_calls @ [Storbinary ''STOR b.txt'' [0, 65, 0]],
             remote = remote fresh_world\<rparr>"
  have o1: "ftp_enter sim_client plain_backend fresh_world = (Inr (), ?w1)"
    by (simp add: sim_session_opens fresh_world_def)
  have o2: "ftp_enter broken_pipe_client plain_backend fresh_world = (Inr (), ?w1)"
    by (simp add: sim_session_opens broken_pipe_client_def fresh_world_def)
  have r1: "client_retrbinary sim_client (''RETR '' @ id ''b.txt'') ?w1 = (Inl (FtpError ''550''), ?w2)"
    by (simp add: client_retrbinary_def invoke_def fresh_world_def)
  have r2: "client_retrbinary broken_pipe_client (''RETR '' @ id ''b.txt'') ?w1
      = (Inl (OSError (Some 32)), ?w2)"
    by (simp add: client_retrbinary_def invoke_def broken_pipe_client_def)
  have d: "add_enter_dir broken_pipe_client (dirname (id ''b.txt'')) ?w1 = Some (Inr (), ?w1)"
    by (simp add: add_enter_dir_def)
  have s: "client_storbinary broken_pipe_client (''STOR '' @ id ''b.txt'') [0, 65, 0] ?w1
      = (Inl (OSError (Some 32)), ?w3)"
    by (simp add: client_storbinary_def invoke_def broken_pipe_client_def)
  have g1: "get id sim_client plain_backend ''b.txt'' fresh_world
      = (Inl (FileNotFoundError (FtpError ''550'')), client_exit sim_client ?w2)"
    using conjunct1 [OF get_wraps_protocol_errors_only [OF o1,
          where fullpath = id and relative_path = "''b.txt''"]] r1
    by simp
  have g2: "get id broken_pipe_client plain_backend ''b.txt'' fresh_world
      = (Inl (OSError (Some 32)), client_exit broken_pipe_client ?w2)"
    using conjunct1 [OF conjunct2 [OF get_wraps_protocol_errors_only [OF o2,
          where fullpath = id and relative_path = "''b.txt''"]]] r2
    by simp
  have a: "add id broken_pipe_client plain_backend ''b.txt'' [0, 65, 0] fresh_world
      = Some (Inl (ValueError (OSError (Some 32))), client_exit broken_pipe_client ?w3)"
    using conjunct2 [OF conjunct2 [OF conjunct2 [OF get_wraps_protocol_errors_only [OF o2,
          where fullpath = id and relative_path = "''b.txt''" and data = "[0, 65, 0]"]]]] d s
    by simp
  show ?thesis
    using o1 g1 g2 a
    by (simp add: client_exit_def broken_pipe_client_def)
qed

section \<open>Round trip\<close>

text \<open>
  C3. The claim fails with the clients the adapter constructs. They report a missing
  directory as a protocol error (\<^verbatim>\<open>ftplib.error_perm\<close>), which is not an \<^verbatim>\<open>IOError\<close>: the
  handler around \<^verbatim>\<open>cwd\<close> in \<open>add\<close> does not catch it, so \<open>ftp_mkdirs\<close> is not reached.
  On a server without the directory \<open>/srv/a\<close>, \<open>add\<close> of \<open>a/b.txt\<close> raises what \<^verbatim>\<open>cwd\<close>
  raised and uploads nothing, and the \<open>get\<close> that follows raises \<open>FileNotFoundError\<close>.
\<close>

theorem add_then_get_fails_without_directory:
  "add under_srv sim_client plain_backend ''a/b.txt'' [0, 65, 0] fresh_world
     = Some (Inl (FtpError ''550''),
         \<lparr>calls = session_calls @ [Cwd ''/srv/a'', Exit], remote = remote fresh_world\<rparr>)
   \<and> get under_srv sim_client plain_backend ''a/b.txt''
       \<lparr>calls = session_calls @ [Cwd ''/srv/a'', Exit], remote = remote fresh_world\<rparr>
     = (Inl (FileNotFoundError (FtpError ''550'')),
         \<lparr>calls = session_calls @ [Cwd ''/srv/a'', Exit] @ session_calls @
            [Retrbinary ''RETR /srv/a/b.txt'', Exit],
          remote = remote fresh_world\<rparr>)"
  by (simp add: Let_def add_def get_def ftp_def plain_session_opens add_enter_dir_def
      under_srv_def client_cwd_def client_retrbinary_def client_exit_def invoke_def
      fresh_world_def dir_exists_def sep_def)

text \<open>
  A second way the round trip is lost. Where the directory exists and the resolved path
  does not start with a separator, \<open>add\<close> first changes into the directory and then
  uploads under the same path, which the server now takes from that directory: the data
  lands at \<open>a/a/b.txt\<close>, and \<open>get\<close> of \<open>a/b.txt\<close> returns what was there before.
\<close>

lemma add_after_cwd_lands_elsewhere:
  "add id sim_client plain_backend ''a/b.txt'' [0, 65, 0] nested_world
     = Some (Inr (),
         \<lparr>calls = session_calls @ [Cwd ''a'', Storbinary ''STOR a/b.txt'' [0, 65, 0], Exit],
          remote = \<lparr>sim_dirs = [''a'', ''a/a''],
                    sim_files = [(''a/a/b.txt'', [0, 65, 0]), (''a/b.txt'', [9])],
                    sim_cwd = ''a''\<rparr>\<rparr>)"
  "get id sim_client plain_backend ''a/b.txt''
       \<lparr>calls = session_calls @ [Cwd ''a'', Storbinary ''STOR a/b.txt'' [0, 65, 0], Exit],
        remote = \<lparr>sim_dirs = [''a'', ''a/a''],
                  sim_files = [(''a/a/b.txt'', [0, 65, 0]), (''a/b.txt'', [9])],
                  sim_cwd = ''a''\<rparr>\<rparr>
     = (Inr [9],
         \<lparr>calls = session_calls @ [Cwd ''a'', Storbinary ''STOR a/b.txt'' [0, 65, 0], Exit]
            @ session_calls @ [Retrbinary ''RETR a/b.txt'', Exit],
          remote = \<lparr>sim_dirs = [''a'', ''a/a''],
                    sim_files = [(''a/a/b.txt'', [0, 65, 0]), (''a/b.txt'', [9])],
                    sim_cwd = []\<rparr>\<rparr>)"
  by (simp_all add: Let_def add_def get_def ftp_def plain_session_opens add_enter_dir_def
      add_upload_def client_cwd_def client_storbinary_def client_retrbinary_def
      client_exit_def invoke_def nested_world_def dir_exists_def parent_exists_def
      resolve_def join_def sep_def)

text \<open>
  Where the directory exists and the resolved path starts at the root, the round trip
  holds on the simulated server, for every byte string.
\<close>

lemma add_then_get_in_existing_directory:
  "add under_srv sim_client plain_backend ''a/b.txt'' data srv_world
     = Some (Inr (),
         \<lparr>calls = session_calls @
            [Cwd ''/srv/a'', Storbinary ''STOR /srv/a/b.txt'' data, Exit],
          remote = \<lparr>sim_dirs = [''/srv'', ''/srv/a'', ''/srv/b''],
                    sim_files = [(''/srv/a/b.txt'', data), (''/srv/a/x.txt'', [1]),
                                 (''/srv/b/x.txt'', [2])],
                    sim_cwd = ''/srv/a''\<rparr>\<rparr>)"
  "fst (get under_srv sim_client plain_backend ''a/b.txt''
       \<lparr>calls = session_calls @
            [Cwd ''/srv/a'', Storbinary ''STOR /srv/a/b.txt'' data, Exit],
        remote = \<lparr>sim_dirs = [''/srv'', ''/srv/a'', ''/srv/b''],
                  sim_files = [(''/srv/a/b.txt'', data), (''/srv/a/x.txt'', [1]),
                               (''/srv/b/x.txt'', [2])],
                  sim_cwd = ''/srv/a''\<rparr>\<rparr>) = Inr data"
  by (simp_all add: Let_def add_def get_def ftp_def plain_session_opens add_enter_dir_def
      add_upload_def under_srv_def client_cwd_def client_storbinary_def
      client_retrbinary_def client_exit_def invoke_def srv_world_def dir_exists_def
      parent_exists_def resolve_def join_def sep_def)

section \<open>Moving files\<close>

lemma move_file_unfold:
  "move_file fp client destination_path ftp_file w =
     (case client_nlst client (join destination_path (basename ftp_file)) w of
        (Inl e, w1) \<Rightarrow>
          if is_ftplib_Error e
          then client_rename client (fp ftp_file)
                 (fp (join destination_path (basename ftp_file))) w1
          else (Inl e, w1)
      | (Inr names, w1) \<Rightarrow>
          if names \<noteq> [] then
            (case client_delete client (join destination_path (basename ftp_file)) w1 of
               (Inl e, w2) \<Rightarrow> (Inl e, w2)
             | (Inr resp, w2) \<Rightarrow>
                 client_rename client (fp ftp_file)
                   (fp (join destination_path (basename ftp_file))) w2)
          else client_rename client (fp ftp_file)
                 (fp (join destination_path (basename ftp_file))) w1)"
  by (simp add: move_file_def probe_destination_def and_then_def return_def Let_def
      split: prod.splits sum.splits)

lemma invoke_calls: "invoke c f w = (r, w1) \<Longrightarrow> calls w1 = calls w @ [c]"
  by (auto simp: invoke_def split: prod.splits)

lemma move_file_calls:
  assumes "move_file fp client destination_path ftp_file w = (Inr u, w')"
  shows "calls w' = calls w @ [Nlst (join destination_path (basename ftp_file)),
             Rename (fp ftp_file) (fp (join destination_path (basename ftp_file)))]
       \<or> calls w' = calls w @ [Nlst (join destination_path (basename ftp_file)),
             Delete (join destination_path (basename ftp_file)),
             Rename (fp ftp_file) (fp (join destination_path (basename ftp_file)))]"
  using assms unfolding move_file_unfold
  by (auto simp: client_nlst_def client_delete_def client_rename_def
      split: prod.splits sum.splits if_splits dest!: invoke_calls)

lemma move_loop_append:
  "move_loop fp client destination_path (xs @ ys) w =
     (case move_loop fp client destination_path xs w of
        (Inl e, w1) \<Rightarrow> (Inl e, w1)
      | (Inr u, w1) \<Rightarrow> move_loop fp client destination_path ys w1)"
  by (induction xs arbitrary: w) (auto simp: and_then_def return_def split: prod.splits sum.splits)

text \<open>
  \<open>get\<close>, \<open>list\<close>, \<open>delete\<close> and \<open>add\<close> use the relative path only through its
  resolution: with a resolution \<open>fullpath\<close> they do what they would do, with no
  resolution, on the resolved path.
\<close>

lemma resolved_before_use:
  "get fullpath client backend relative_path = get id client backend (fullpath relative_path)"
  "list fullpath client backend relative_path = list id client backend (fullpath relative_path)"
  "delete fullpath client backend relative_path
     = delete id client backend (fullpath relative_path)"
  "add fullpath client backend relative_path data
     = add id client backend (fullpath relative_path) data"
  unfolding get_def list_def delete_def add_def Let_def id_apply
  by (rule refl)+

text \<open>
  C4. The claim fails in \<open>move_files\<close>: the probe (and the delete that follows a positive
  probe) are handed \<open>destination_path/basename\<close> as it is, while the rename is handed
  the resolved paths. With the root \<open>/srv/\<close> and a file already at \<open>/srv/b/x.txt\<close>, moving
  \<open>a/x.txt\<close> to \<open>b\<close> lists \<open>b/x.txt\<close>, finds nothing, deletes nothing and renames
  \<open>/srv/a/x.txt\<close> to \<open>/srv/b/x.txt\<close>.
\<close>

theorem move_files_probes_unresolved_path:
  "move_files under_srv sim_client plain_backend [''a/x.txt''] ''b'' srv_world
     = (Inr (),
        \<lparr>calls = session_calls @
           [Nlst ''b/x.txt'', Rename ''/srv/a/x.txt'' ''/srv/b/x.txt'', Exit],
         remote = \<lparr>sim_dirs = [''/srv'', ''/srv/a'', ''/srv/b''],
                   sim_files = [(''/srv/b/x.txt'', [1])],
                   sim_cwd = []\<rparr>\<rparr>)"
  by (simp add: move_files_def ftp_def plain_session_opens move_file_unfold and_then_def
      return_def under_srv_def join_def basename_def sep_def
        parent_exists_def dir_exists_def dirname_def head_upto_sep_def rstrip_sep_def srv_world_def
      client_nlst_def client_rename_def client_exit_def invoke_def)

text \<open>
  C7, as stated, fails where the probe raises something that is not an
  \<^verbatim>\<open>ftplib.Error\<close>: a listing that times out (an \<^verbatim>\<open>OSError\<close>) is not taken as "no
  conflict"; \<open>move_files\<close> raises it and renames nothing.
\<close>

theorem move_files_probe_timeout_counterexample:
  "move_files under_srv timeout_listing_client plain_backend [''a/x.txt''] ''b'' srv_world
     = (Inl (OSError None),
        \<lparr>calls = session_calls @ [Nlst ''b/x.txt'', Exit], remote = remote srv_world\<rparr>)"
  by (simp add: move_files_def ftp_def plain_session_opens move_file_unfold and_then_def
      return_def under_srv_def join_def basename_def sep_def
        parent_exists_def dir_exists_def dirname_def head_upto_sep_def rstrip_sep_def srv_world_def
      client_nlst_def client_rename_def client_exit_def invoke_def)

text \<open>
  C7, amended. \<open>move_files\<close> opens one session and runs the files in list order, each
  file only after the one before it has been moved. For one file, with the destination
  \<open>join destination_path (basename ftp_file)\<close>: it lists the destination; when the
  listing returns names it deletes the destination and then renames; when the listing
  returns nothing, or raises an \<^verbatim>\<open>ftplib.Error\<close>, it renames without deleting; when the
  listing raises anything else, that exception is raised and nothing more is called.
  The rename is from \<open>fp ftp_file\<close> to \<open>fp\<close> of the destination. A file that has been
  moved has added to the calls the listing, at most one delete, and the rename, in
  that order.
\<close>

theorem move_files_sequential_overwrite:
  "move_file fp client destination_path ftp_file w =
     (case client_nlst client (join destination_path (basename ftp_file)) w of
        (Inl e, w1) \<Rightarrow>
          if is_ftplib_Error e
          then client_rename client (fp ftp_file)
                 (fp (join destination_path (basename ftp_file))) w1
          else (Inl e, w1)
      | (Inr names, w1) \<Rightarrow>
          if names \<noteq> [] then
            (case client_delete client (join destination_path (basename ftp_file)) w1 of
               (Inl e, w2) \<Rightarrow> (Inl e, w2)
             | (Inr resp, w2) \<Rightarrow>
                 client_rename client (fp ftp_file)
                   (fp (join destination_path (basename ftp_file))) w2)
          else client_rename client (fp ftp_file)
                 (fp (join destination_path (basename ftp_file))) w1)
   \<and> move_loop fp client destination_path [] w = (Inr (), w)
   \<and> move_loop fp client destination_path (ftp_file # files) w =
       (case move_file fp client destination_path ftp_file w of
          (Inl e, w1) \<Rightarrow> (Inl e, w1)
        | (Inr u, w1) \<Rightarrow> move_loop fp client destination_path files w1)
   \<and> (\<forall>w1. ftp_enter client backend w = (Inr (), w1) \<longrightarrow>
        move_files fp client backend files destination_path w =
          (case move_loop fp client destination_path files w1 of
             (r, w2) \<Rightarrow> (r, client_exit client w2)))
   \<and> (\<forall>w'. move_file fp client destination_path ftp_file w = (Inr (), w') \<longrightarrow>
        calls w' = calls w @ [Nlst (join destination_path (basename ftp_file)),
             Rename (fp ftp_file) (fp (join destination_path (basename ftp_file)))]
        \<or> calls w' = calls w @ [Nlst (join destination_path (basename ftp_file)),
             Delete (join destination_path (basename ftp_file)),
             Rename (fp ftp_file) (fp (join destination_path (basename ftp_file)))])"
proof (intro conjI allI impI)
  show "move_file fp client destination_path ftp_file w =
     (case client_nlst client (join destination_path (basename ftp_file)) w of
        (Inl e, w1) \<Rightarrow>
          if is_ftplib_Error e
          then client_rename client (fp ftp_file)
                 (fp (join destination_path (basename ftp_file))) w1
          else (Inl e, w1)
      | (Inr names, w1) \<Rightarrow>
          if names \<noteq> [] then
            (case client_delete client (join destination_path (basename ftp_file)) w1 of
               (Inl e, w2) \<Rightarrow> (Inl e, w2)
             | (Inr resp, w2) \<Rightarrow>
                 client_rename client (fp ftp_file)
                   (fp (join destination_path (basename ftp_file))) w2)
          else client_rename client (fp ftp_file)
                 (fp (join destination_path (basename ftp_file))) w1)"
    by (rule move_file_unfold)
next
  show "move_loop fp client destination_path [] w = (Inr (), w)"
    by (simp add: return_def)
next
  show "move_loop fp client destination_path (ftp_file # files) w =
       (case move_file fp client destination_path ftp_file w of
          (Inl e, w1) \<Rightarrow> (Inl e, w1)
        | (Inr u, w1) \<Rightarrow> move_loop fp client destination_path files w1)"
    by (simp add: and_then_def split: prod.splits sum.splits)
next
  fix w1
  assume "ftp_enter client backend w = (Inr (), w1)"
  then show "move_files fp client backend files destination_path w =
          (case move_loop fp client destination_path files w1 of
             (r, w2) \<Rightarrow> (r, client_exit client w2))"
    by (simp add: move_files_def ftp_opened)
next
  fix w'
  assume "move_file fp client destination_path ftp_file w = (Inr (), w')"
  then show "calls w' = calls w @ [Nlst (join destination_path (basename ftp_file)),
             Rename (fp ftp_file) (fp (join destination_path (basename ftp_file)))]
        \<or> calls w' = calls w @ [Nlst (join destination_path (basename ftp_file)),
             Delete (join destination_path (basename ftp_file)),
             Rename (fp ftp_file) (fp (join destination_path (basename ftp_file)))]"
    by (rule move_file_calls)
qed
theorem move_files_sequential_overwrite_witness:
  "ftp_enter sim_client plain_backend flat_world
     = (Inr (), \<lparr>calls = session_calls, remote = remote flat_world\<rparr>)
   \<and> move_file id sim_client ''b'' ''a/x.txt'' \<lparr>calls = session_calls, remote = remote flat_world\<rparr>
     = (Inr (),
        \<lparr>calls = session_calls @
           [Nlst ''b/x.txt'', Delete ''b/x.txt'', Rename ''a/x.txt'' ''b/x.txt''],
         remote = \<lparr>sim_dirs = [''a'', ''b''],
                   sim_files = [(''b/x.txt'', [1]), (''a/y.txt'', [3])],
                   sim_cwd = []\<rparr>\<rparr>)
   \<and> move_files id sim_client plain_backend [''a/y.txt'', ''a/x.txt''] ''b'' flat_world
     = (Inr (),
        \<lparr>calls = session_calls @
           [Nlst ''b/y.txt'', Rename ''a/y.txt'' ''b/y.txt'',
            Nlst ''b/x.txt'', Delete ''b/x.txt'', Rename ''a/x.txt'' ''b/x.txt'', Exit],
         remote = \<lparr>sim_dirs = [''a'', ''b''],
                   sim_files = [(''b/x.txt'', [1]), (''b/y.txt'', [3])],
                   sim_cwd = []\<rparr>\<rparr>)"
proof -
  let ?w1 = "\<lparr>calls = session_calls, remote = remote flat_world\<rparr>"
  note steps = move_files_sequential_overwrite
  have opened: "ftp_enter sim_client plain_backend flat_world = (Inr (), ?w1)"
    by (simp add: plain_session_opens flat_world_def)
  have one: "move_file id sim_client ''b'' ''a/x.txt'' ?w1
     = (Inr (),
        \<lparr>calls = session_calls @
           [Nlst ''b/x.txt'', Delete ''b/x.txt'', Rename ''a/x.txt'' ''b/x.txt''],
         remote = \<lparr>sim_dirs = [''a'', ''b''],
                   sim_files = [(''b/x.txt'', [1]), (''a/y.txt'', [3])],
                   sim_cwd = []\<rparr>\<rparr>)"
    unfolding conjunct1 [OF steps [where client = sim_client and fp = id
          and destination_path = "''b''" and ftp_file = "''a/x.txt''" and w = ?w1]]
    by (simp add: join_def basename_def sep_def
        parent_exists_def dir_exists_def dirname_def head_upto_sep_def rstrip_sep_def flat_world_def
        client_nlst_def client_delete_def client_rename_def invoke_def)
  have "move_files id sim_client plain_backend [''a/y.txt'', ''a/x.txt''] ''b'' flat_world
      = (case move_loop id sim_client ''b'' [''a/y.txt'', ''a/x.txt''] ?w1 of
           (r, w2) \<Rightarrow> (r, client_exit sim_client w2))"
    using conjunct1 [OF conjunct2 [OF conjunct2 [OF conjunct2 [OF steps
            [where client = sim_client and backend = plain_backend and w = flat_world
               and fp = id and destination_path = "''b''"
               and files = "[''a/y.txt'', ''a/x.txt'']"]]]]] opened
    by blast
  then have all: "move_files id sim_client plain_backend [''a/y.txt'', ''a/x.txt''] ''b'' flat_world
     = (Inr (),
        \<lparr>calls = session_calls @
           [Nlst ''b/y.txt'', Rename ''a/y.txt'' ''b/y.txt'',
            Nlst ''b/x.txt'', Delete ''b/x.txt'', Rename ''a/x.txt'' ''b/x.txt'', Exit],
         remote = \<lparr>sim_dirs = [''a'', ''b''],
                   sim_files = [(''b/x.txt'', [1]), (''b/y.txt'', [3])],
                   sim_cwd = []\<rparr>\<rparr>)"
    by (simp add: move_file_unfold and_then_def return_def join_def basename_def sep_def
        parent_exists_def dir_exists_def dirname_def head_upto_sep_def rstrip_sep_def
        flat_world_def client_nlst_def client_delete_def client_rename_def client_exit_def
        invoke_def)
  show ?thesis
    using opened one all by simp
qed

text \<open>
  C8. In an open session, after the files before it have been moved: when the step for
  a file raises, \<open>move_files\<close> raises that exception, and the only call made after the
  failing one is the session's exit, so no later file is touched and nothing done
  before is undone. When the probe finds the destination and the delete raises, the
  step raises that exception having called the listing and the delete only: no rename
  of the source has been asked for. When the rename raises, after a delete that
  returned or a probe that found nothing, the step raises that exception.
\<close>

theorem move_files_aborts_without_rollback:
  assumes "ftp_enter client backend w = (Inr (), w1)"
    and "move_loop fp client destination_path moved w1 = (Inr (), w2)"
  shows "(\<forall>e w3. move_file fp client destination_path ftp_file w2 = (Inl e, w3) \<longrightarrow>
            move_files fp client backend (moved @ ftp_file # remaining) destination_path w
              = (Inl e, client_exit client w3)
            \<and> calls (client_exit client w3) = calls w3 @ [Exit])
       \<and> (\<forall>names w3 e w4.
            client_nlst client (join destination_path (basename ftp_file)) w2 = (Inr names, w3)
            \<and> names \<noteq> []
            \<and> client_delete client (join destination_path (basename ftp_file)) w3 = (Inl e, w4)
            \<longrightarrow>
            move_file fp client destination_path ftp_file w2 = (Inl e, w4)
            \<and> calls w4 = calls w2 @ [Nlst (join destination_path (basename ftp_file)),
                 Delete (join destination_path (basename ftp_file))])
       \<and> (\<forall>names w3 resp w4 e w5.
            client_nlst client (join destination_path (basename ftp_file)) w2 = (Inr names, w3)
            \<and> names \<noteq> []
            \<and> client_delete client (join destination_path (basename ftp_file)) w3
                = (Inr resp, w4)
            \<and> client_rename client (fp ftp_file)
                  (fp (join destination_path (basename ftp_file))) w4 = (Inl e, w5)
            \<longrightarrow> move_file fp client destination_path ftp_file w2 = (Inl e, w5))
       \<and> (\<forall>w3 e w4.
            probe_destination client (join destination_path (basename ftp_file)) w2
                = (Inr [], w3)
            \<and> client_rename client (fp ftp_file)
                  (fp (join destination_path (basename ftp_file))) w3 = (Inl e, w4)
            \<longrightarrow> move_file fp client destination_path ftp_file w2 = (Inl e, w4))"
proof (intro conjI allI impI)
  fix e w3
  assume "move_file fp client destination_path ftp_file w2 = (Inl e, w3)"
  then have "move_loop fp client destination_path (moved @ ftp_file # remaining) w1 = (Inl e, w3)"
    using assms(2) by (simp add: move_loop_append and_then_def)
  then show "move_files fp client backend (moved @ ftp_file # remaining) destination_path w
      = (Inl e, client_exit client w3)"
    using assms(1) by (simp add: move_files_def ftp_opened)
  show "calls (client_exit client w3) = calls w3 @ [Exit]"
    by (simp add: client_exit_def)
next
  fix names w3 e w4
  assume a: "client_nlst client (join destination_path (basename ftp_file)) w2 = (Inr names, w3)
            \<and> names \<noteq> []
            \<and> client_delete client (join destination_path (basename ftp_file)) w3 = (Inl e, w4)"
  then show "move_file fp client destination_path ftp_file w2 = (Inl e, w4)"
    by (simp add: move_file_unfold)
  from a show "calls w4 = calls w2 @ [Nlst (join destination_path (basename ftp_file)),
                 Delete (join destination_path (basename ftp_file))]"
    by (auto simp: client_nlst_def client_delete_def dest!: invoke_calls)
next
  fix names w3 resp w4 e w5
  assume "client_nlst client (join destination_path (basename ftp_file)) w2 = (Inr names, w3)
            \<and> names \<noteq> []
            \<and> client_delete client (join destination_path (basename ftp_file)) w3
                = (Inr resp, w4)
            \<and> client_rename client (fp ftp_file)
                  (fp (join destination_path (basename ftp_file))) w4 = (Inl e, w5)"
  then show "move_file fp client destination_path ftp_file w2 = (Inl e, w5)"
    by (simp add: move_file_unfold)
next
  fix w3 e w4
  assume "probe_destination client (join destination_path (basename ftp_file)) w2
                = (Inr [], w3)
            \<and> client_rename client (fp ftp_file)
                  (fp (join destination_path (basename ftp_file))) w3 = (Inl e, w4)"
  then show "move_file fp client destination_path ftp_file w2 = (Inl e, w4)"
    by (simp add: move_file_def and_then_def return_def Let_def)
qed

theorem move_files_aborts_without_rollback_witness:
  "ftp_enter readonly_client plain_backend flat_world
     = (Inr (), \<lparr>calls = session_calls, remote = remote flat_world\<rparr>)
   \<and> move_loop id readonly_client ''b'' [''a/y.txt'']
       \<lparr>calls = session_calls, remote = remote flat_world\<rparr>
     = (Inr (),
        \<lparr>calls = session_calls @ [Nlst ''b/y.txt'', Rename ''a/y.txt'' ''b/y.txt''],
         remote = \<lparr>sim_dirs = [''a'', ''b''],
                   sim_files = [(''b/y.txt'', [3]), (''a/x.txt'', [1]), (''b/x.txt'', [2])],
                   sim_cwd = []\<rparr>\<rparr>)
   \<and> move_file id readonly_client ''b'' ''a/x.txt''
       \<lparr>calls = session_calls @ [Nlst ''b/y.txt'', Rename ''a/y.txt'' ''b/y.txt''],
        remote = \<lparr>sim_dirs = [''a'', ''b''],
                  sim_files = [(''b/y.txt'', [3]), (''a/x.txt'', [1]), (''b/x.txt'', [2])],
                   sim_cwd = []\<rparr>\<rparr>
     = (Inl (FtpError ''550''),
        \<lparr>calls = session_calls @ [Nlst ''b/y.txt'', Rename ''a/y.txt'' ''b/y.txt'',
           Nlst ''b/x.txt'', Delete ''b/x.txt''],
         remote = \<lparr>sim_dirs = [''a'', ''b''],
                   sim_files = [(''b/y.txt'', [3]), (''a/x.txt'', [1]), (''b/x.txt'', [2])],
                   sim_cwd = []\<rparr>\<rparr>)
   \<and> move_files id readonly_client plain_backend [''a/y.txt'', ''a/x.txt'', ''a/z.txt''] ''b''
       flat_world
     = (Inl (FtpError ''550''),
        \<lparr>calls = session_calls @ [Nlst ''b/y.txt'', Rename ''a/y.txt'' ''b/y.txt'',
           Nlst ''b/x.txt'', Delete ''b/x.txt'', Exit],
         remote = \<lparr>sim_dirs = [''a'', ''b''],
                   sim_files = [(''b/y.txt'', [3]), (''a/x.txt'', [1]), (''b/x.txt'', [2])],
                   sim_cwd = []\<rparr>\<rparr>)"
proof -
  let ?w1 = "\<lparr>calls = session_calls, remote = remote flat_world\<rparr>"
  let ?w2 = "\<lparr>calls = session_calls @ [Nlst ''b/y.txt'', Rename ''a/y.txt'' ''b/y.txt''],
         remote = \<lparr>sim_dirs = [''a'', ''b''],
                   sim_files = [(''b/y.txt'', [3]), (''a/x.txt'', [1]), (''b/x.txt'', [2])],
                   sim_cwd = []\<rparr>\<rparr>"
  let ?w3 = "\<lparr>calls = session_calls @ [Nlst ''b/y.txt'', Rename ''a/y.txt'' ''b/y.txt'',
           Nlst ''b/x.txt'', Delete ''b/x.txt''],
         remote = \<lparr>sim_dirs = [''a'', ''b''],
                   sim_files = [(''b/y.txt'', [3]), (''a/x.txt'', [1]), (''b/x.txt'', [2])],
                   sim_cwd = []\<rparr>\<rparr>"
  have opened: "ftp_enter readonly_client plain_backend flat_world = (Inr (), ?w1)"
    by (simp add: plain_session_opens flat_world_def)
  have moved: "move_loop id readonly_client ''b'' [''a/y.txt''] ?w1 = (Inr (), ?w2)"
    by (simp add: move_file_unfold and_then_def return_def join_def basename_def sep_def
        parent_exists_def dir_exists_def dirname_def head_upto_sep_def rstrip_sep_def
        flat_world_def client_nlst_def client_delete_def client_rename_def invoke_def)
  have failed: "move_file id readonly_client ''b'' ''a/x.txt'' ?w2 = (Inl (FtpError ''550''), ?w3)"
    by (simp add: move_file_unfold join_def basename_def sep_def
        parent_exists_def dir_exists_def dirname_def head_upto_sep_def rstrip_sep_def
        client_nlst_def client_delete_def client_rename_def invoke_def)
  have "move_files id readonly_client plain_backend ([''a/y.txt''] @ ''a/x.txt'' # [''a/z.txt''])
        ''b'' flat_world = (Inl (FtpError ''550''), client_exit readonly_client ?w3)"
    using conjunct1 [OF move_files_aborts_without_rollback [OF opened moved,
          where ftp_file = "''a/x.txt''" and remaining = "[''a/z.txt'']"]] failed
    by blast
  then show ?thesis
    using opened moved failed by (simp add: client_exit_def)
qed

end
